theory Spec2Isabelle
  imports Complex_Main "HOL-Library.Char_ord" "HOL-Library.List_Lexorder"
    "HOL-Library.Product_Lexorder" "HOL-Library.Multiset"
begin

section \<open>Values and errors\<close>

text \<open>
  The dashboard script \<^verbatim>\<open>source_code.py\<close> builds one pandas data frame \<^verbatim>\<open>data\<close> at
  module level and queries it from its callbacks. The embedding follows the script line by
  line. The pandas operations it calls are modelled by what pandas documents for them.

  Numbers: a metric cell of the raw CSV is a finite number or empty (pandas' NaN), so it is
  a \<open>rat option\<close>. Finite values are exact rationals: rounding, overflow and the sign of
  zero of IEEE doubles are not modelled. Derived columns may hold the IEEE special values,
  which the type \<open>fval\<close> adds.
\<close>

datatype error = ValueError | OverflowError | IndexError

type_synonym cell = "rat option"

datatype fval = Fin rat | PInf | NInf | NaN

fun of_cell :: "cell \<Rightarrow> fval" where
  "of_cell None = NaN"
| "of_cell (Some q) = Fin q"

text \<open>The first error of a sequence of results wins, as the first raise does.\<close>

fun collect :: "(error + 'a) list \<Rightarrow> error + 'a list" where
  "collect [] = Inr []"
| "collect (x # xs) =
     (case x of Inl e \<Rightarrow> Inl e
      | Inr v \<Rightarrow> (case collect xs of Inl e \<Rightarrow> Inl e | Inr vs \<Rightarrow> Inr (v # vs)))"

section \<open>Cleaner: numeric country codes\<close>

text \<open>
  \<^verbatim>\<open>.astype(str).str.replace('"', "", regex=False).str.strip().astype("Int64")\<close>.
  The model starts from the column after \<^verbatim>\<open>astype(str)\<close>: every cell is a string.
  \<^verbatim>\<open>astype("Int64")\<close> on strings parses each one as
  Python's \<^verbatim>\<open>int()\<close> does and raises \<^verbatim>\<open>ValueError\<close> on a string that is no integer
  literal; a literal outside 64 bits raises \<^verbatim>\<open>OverflowError\<close>.
\<close>

definition is_space :: "char \<Rightarrow> bool" where
  "is_space c = (c \<in> set [CHR 0x20, CHR 0x09, CHR 0x0A, CHR 0x0B, CHR 0x0C, CHR 0x0D,
                           CHR 0x1C, CHR 0x1D, CHR 0x1E, CHR 0x1F])"

definition str_strip :: "string \<Rightarrow> string" where
  "str_strip s = rev (dropWhile is_space (rev (dropWhile is_space s)))"

definition str_replace_quote :: "string \<Rightarrow> string" where
  "str_replace_quote s = filter (\<lambda>c. c \<noteq> CHR 0x22) s"

definition is_digit :: "char \<Rightarrow> bool" where
  "is_digit c = (CHR ''0'' \<le> c \<and> c \<le> CHR ''9'')"

definition digit_val :: "char \<Rightarrow> nat" where
  "digit_val c = of_char c - 48"

text \<open>Digits, with single underscores allowed between two digits.\<close>

fun read_digits :: "nat \<Rightarrow> string \<Rightarrow> nat option" where
  "read_digits acc [] = Some acc"
| "read_digits acc [c] = (if is_digit c then Some (10 * acc + digit_val c) else None)"
| "read_digits acc (c # d # ds) =
     (if is_digit c then read_digits (10 * acc + digit_val c) (d # ds)
      else if c = CHR ''_'' \<and> is_digit d then read_digits (10 * acc + digit_val d) ds
      else None)"

definition parse_nat :: "string \<Rightarrow> nat option" where
  "parse_nat s = (case s of [] \<Rightarrow> None
     | c # cs \<Rightarrow> if is_digit c then read_digits (digit_val c) cs else None)"

definition py_int :: "string \<Rightarrow> int option" where
  "py_int s = (case str_strip s of [] \<Rightarrow> None
     | c # cs \<Rightarrow>
         if c = CHR ''-'' then map_option (\<lambda>n. - int n) (parse_nat cs)
         else if c = CHR ''+'' then map_option int (parse_nat cs)
         else map_option int (parse_nat (c # cs)))"

definition astype_Int64 :: "string \<Rightarrow> error + int" where
  "astype_Int64 s = (case py_int s of None \<Rightarrow> Inl ValueError
     | Some n \<Rightarrow> if - (2 ^ 63) \<le> n \<and> n < 2 ^ 63 then Inr n else Inl OverflowError)"

definition clean_code :: "string \<Rightarrow> error + int" where
  "clean_code s = astype_Int64 (str_strip (str_replace_quote s))"

definition clean_alpha3 :: "string \<Rightarrow> string" where
  "clean_alpha3 s = str_strip (str_replace_quote s)"

section \<open>Tables\<close>

text \<open>
  The columns of \<^verbatim>\<open>data\<close> that the script keeps. \<open>measures\<close> holds the columns every
  stage has; a trade row adds the M49 code (a string before cleaning, an integer after),
  a \<open>row\<close> adds the continent and the ISO-3 code (both may be missing), a canonical row
  adds the two derived columns.
\<close>

record measures =
  Area :: string
  Year :: int
  Import :: cell
  Export :: cell
  Production :: cell
  Consumption :: cell

record 'c trade_row = measures +
  Area_Code :: 'c

record 'c ref_row =
  Numeric_code :: 'c
  Alpha3 :: string

record row = measures +
  Continent :: "string option"
  ISO3 :: "string option"

record canon_row = row +
  Net_Trade :: cell
  SSR :: fval

definition clean_trade_row :: "string trade_row \<Rightarrow> error + int trade_row" where
  "clean_trade_row d = (case clean_code (Area_Code d) of Inl e \<Rightarrow> Inl e
     | Inr n \<Rightarrow> Inr \<lparr>Area = Area d, Year = Year d, Import = Import d, Export = Export d,
         Production = Production d, Consumption = Consumption d, Area_Code = n\<rparr>)"

definition clean_ref_row :: "string ref_row \<Rightarrow> error + int ref_row" where
  "clean_ref_row f = (case clean_code (Numeric_code f) of Inl e \<Rightarrow> Inl e
     | Inr n \<Rightarrow> Inr \<lparr>Numeric_code = n, Alpha3 = clean_alpha3 (Alpha3 f)\<rparr>)"

definition clean_data :: "string trade_row list \<Rightarrow> error + int trade_row list" where
  "clean_data raw = collect (map clean_trade_row raw)"

definition clean_ref :: "string ref_row list \<Rightarrow> error + int ref_row list" where
  "clean_ref raw = collect (map clean_ref_row raw)"

text \<open>\<^verbatim>\<open>data.loc[data["Area"] == "Sudan", "Area Code (M49)"] = 736\<close>\<close>

definition fix_sudan_row :: "int trade_row \<Rightarrow> int trade_row" where
  "fix_sudan_row d = (if Area d = ''Sudan'' then d\<lparr>Area_Code := 736\<rparr> else d)"

definition fix_sudan :: "int trade_row list \<Rightarrow> int trade_row list" where
  "fix_sudan data = map fix_sudan_row data"

text \<open>\<^verbatim>\<open>data["Area"].replace("United Kingdom of ...", "UK and Northern Ireland")\<close>\<close>

definition shorten_uk_row :: "int trade_row \<Rightarrow> int trade_row" where
  "shorten_uk_row d =
     (if Area d = ''United Kingdom of Great Britain and Northern Ireland''
      then d\<lparr>Area := ''UK and Northern Ireland''\<rparr> else d)"

definition shorten_uk :: "int trade_row list \<Rightarrow> int trade_row list" where
  "shorten_uk data = map shorten_uk_row data"

section \<open>Joiner\<close>

text \<open>
  \<^verbatim>\<open>data.merge(ref_table, how="left", left_on="Area Code (M49)", right_on="Numeric code")\<close>:
  every left row once per matching reference row, and once with a missing Alpha-3 code when
  no reference row matches.
\<close>

definition merge_row :: "int ref_row list \<Rightarrow> int trade_row \<Rightarrow> (int trade_row \<times> string option) list" where
  "merge_row ref d = (case filter (\<lambda>f. Numeric_code f = Area_Code d) ref of
       [] \<Rightarrow> [(d, None)]
     | m # ms \<Rightarrow> map (\<lambda>f. (d, Some (Alpha3 f))) (m # ms))"

definition merge_left :: "int trade_row list \<Rightarrow> int ref_row list \<Rightarrow> (int trade_row \<times> string option) list" where
  "merge_left data ref = concat (map (merge_row ref) data)"

section \<open>Continent classifier\<close>

text \<open>
  \<^verbatim>\<open>cc.convert(names=data["Area Code (M49)"], to="continent", src="UNnumeric")\<close> is the
  external \<^verbatim>\<open>country_converter\<close>; it is the parameter \<open>cc\<close>, from the M49 code to the
  continent's name or the string \<^verbatim>\<open>not found\<close>. The script replaces \<^verbatim>\<open>not found\<close> by a
  missing value, keeps the rows whose continent is not missing and selects the columns.
\<close>


definition with_continent :: "(int \<Rightarrow> string) \<Rightarrow> (int trade_row \<times> string option) \<Rightarrow> row" where
  "with_continent cc j = (case j of (d, alpha) \<Rightarrow>
     \<lparr>Area = Area d, Year = Year d, Import = Import d, Export = Export d,
      Production = Production d, Consumption = Consumption d,
      Continent = (if cc (Area_Code d) = ''not found'' then None else Some (cc (Area_Code d))),
      ISO3 = alpha\<rparr>)"

definition classify :: "(int \<Rightarrow> string) \<Rightarrow> (int trade_row \<times> string option) list \<Rightarrow> row list" where
  "classify cc joined = filter (\<lambda>r. Continent r \<noteq> None) (map (with_continent cc) joined)"

section \<open>Aggregator\<close>

text \<open>
  \<^verbatim>\<open>data.groupby(["Area", "Continent", "ISO-3", "Year"]).agg({... "sum"}).reset_index()\<close>.
  \<^verbatim>\<open>groupby\<close> drops the rows with a missing value in a key column, orders the groups by
  their key, and \<^verbatim>\<open>sum\<close> skips missing cells (the sum of no cell is 0).
\<close>

type_synonym key = "string \<times> string \<times> string \<times> int"

definition key_of :: "'a row_scheme \<Rightarrow> key option" where
  "key_of r = (case Continent r of None \<Rightarrow> None
     | Some c \<Rightarrow> (case ISO3 r of None \<Rightarrow> None | Some i \<Rightarrow> Some (Area r, c, i, Year r)))"

definition sum_skipna :: "cell list \<Rightarrow> cell" where
  "sum_skipna cs = Some (sum_list (map (\<lambda>c. case c of None \<Rightarrow> 0 | Some q \<Rightarrow> q) cs))"

definition group_of :: "row list \<Rightarrow> key \<Rightarrow> row list" where
  "group_of rows k = filter (\<lambda>r. key_of r = Some k) rows"

definition agg_group :: "row list \<Rightarrow> key \<Rightarrow> row" where
  "agg_group rows k = (case k of (a, c, i, y) \<Rightarrow>
     \<lparr>Area = a, Year = y,
      Import = sum_skipna (map Import (group_of rows k)),
      Export = sum_skipna (map Export (group_of rows k)),
      Production = sum_skipna (map Production (group_of rows k)),
      Consumption = sum_skipna (map Consumption (group_of rows k)),
      Continent = Some c, ISO3 = Some i\<rparr>)"

definition group_keys :: "row list \<Rightarrow> key list" where
  "group_keys rows = sort (remdups (List.map_filter key_of rows))"

definition aggregate :: "row list \<Rightarrow> row list" where
  "aggregate rows = map (agg_group rows) (group_keys rows)"

section \<open>Metric deriver\<close>

text \<open>
  \<^verbatim>\<open>data["Net Trade"] = data["Export"] - data["Import"]\<close> and
  \<^verbatim>\<open>data["Self-Sufficiency Ratio"] = data["Production"] / data["Consumption"]\<close>:
  element-wise float arithmetic, which never raises. A missing operand gives NaN;
  a zero divisor gives NaN for a zero dividend and an infinity otherwise.
\<close>

fun cell_sub :: "cell \<Rightarrow> cell \<Rightarrow> cell" where
  "cell_sub (Some a) (Some b) = Some (a - b)"
| "cell_sub _ _ = None"

definition div_fin :: "rat \<Rightarrow> rat \<Rightarrow> fval" where
  "div_fin p c = (if c = 0 then (if p = 0 then NaN else if 0 < p then PInf else NInf)
                  else Fin (p / c))"

fun fdiv :: "fval \<Rightarrow> fval \<Rightarrow> fval" where
  "fdiv NaN _ = NaN"
| "fdiv _ NaN = NaN"
| "fdiv (Fin p) (Fin c) = div_fin p c"
| "fdiv (Fin p) _ = Fin 0"
| "fdiv PInf (Fin c) = (if c < 0 then NInf else PInf)"
| "fdiv NInf (Fin c) = (if c < 0 then PInf else NInf)"
| "fdiv _ _ = NaN"

definition derive_row :: "row \<Rightarrow> canon_row" where
  "derive_row r =
     \<lparr>Area = Area r, Year = Year r, Import = Import r, Export = Export r,
      Production = Production r, Consumption = Consumption r,
      Continent = Continent r, ISO3 = ISO3 r,
      Net_Trade = cell_sub (Export r) (Import r),
      SSR = fdiv (of_cell (Production r)) (of_cell (Consumption r))\<rparr>"

definition derive :: "row list \<Rightarrow> canon_row list" where
  "derive rows = map derive_row rows"

section \<open>The canonical table\<close>

definition build_table :: "(int \<Rightarrow> string) \<Rightarrow> int trade_row list \<Rightarrow> int ref_row list \<Rightarrow> canon_row list" where
  "build_table cc data ref =
     derive (aggregate (classify cc (merge_left (shorten_uk (fix_sudan data)) ref)))"

definition pipeline :: "(int \<Rightarrow> string) \<Rightarrow> string trade_row list \<Rightarrow> string ref_row list \<Rightarrow> error + canon_row list" where
  "pipeline cc raw raw_ref = (case clean_data raw of Inl e \<Rightarrow> Inl e
     | Inr data \<Rightarrow> (case clean_ref raw_ref of Inl e \<Rightarrow> Inl e
         | Inr ref \<Rightarrow> Inr (build_table cc data ref)))"

section \<open>Query engine\<close>

text \<open>The six metric columns of \<^verbatim>\<open>data\<close>, in the order of the script's list \<^verbatim>\<open>metrics\<close>.\<close>

datatype metric = M_Import | M_Export | M_Production | M_Consumption | M_Net_Trade | M_SSR

fun col :: "metric \<Rightarrow> canon_row \<Rightarrow> fval" where
  "col M_Import r = of_cell (Import r)"
| "col M_Export r = of_cell (Export r)"
| "col M_Production r = of_cell (Production r)"
| "col M_Consumption r = of_cell (Consumption r)"
| "col M_Net_Trade r = of_cell (Net_Trade r)"
| "col M_SSR r = SSR r"

definition metrics :: "metric list" where
  "metrics = [M_Import, M_Export, M_Production, M_Consumption, M_Net_Trade, M_SSR]"

text \<open>The comparison \<^verbatim>\<open><\<close> of floats: false whenever an operand is NaN.\<close>

fun fless :: "fval \<Rightarrow> fval \<Rightarrow> bool" where
  "fless NaN _ = False"
| "fless _ NaN = False"
| "fless PInf _ = False"
| "fless _ PInf = True"
| "fless _ NInf = False"
| "fless NInf _ = True"
| "fless (Fin a) (Fin b) = (a < b)"

text \<open>
  The order in which pandas arranges a column for \<^verbatim>\<open>ascending=False\<close>: the largest
  value first, missing values last. Sorting by this key in ascending order is that
  arrangement.
\<close>

fun desc_key :: "fval \<Rightarrow> nat \<times> rat" where
  "desc_key PInf = (0, 0)"
| "desc_key (Fin q) = (1, - q)"
| "desc_key NInf = (2, 0)"
| "desc_key NaN = (3, 0)"

subsection \<open>World rank\<close>

text \<open>
  \<^verbatim>\<open>Series.rank(method="min", ascending=False)\<close> with pandas' default
  \<^verbatim>\<open>na_option="keep"\<close>: the values that are not missing are arranged in descending
  order and numbered from 1; a value's rank is the lowest number among the positions that
  hold it; a missing value has the rank NaN, which \<^verbatim>\<open>astype("Int64")\<close> turns into the
  missing integer.
\<close>

definition rank_min_desc :: "fval list \<Rightarrow> fval \<Rightarrow> nat option" where
  "rank_min_desc vs v =
     (if v = NaN then None
      else Some (Suc (length (takeWhile (\<lambda>x. x \<noteq> v)
                    (sort_key desc_key (filter (\<lambda>x. x \<noteq> NaN) vs))))))"

text \<open>\<^verbatim>\<open>groupby("Year")[metric].rank(...)\<close>: each row is ranked in the group of its year.\<close>

definition year_group :: "canon_row list \<Rightarrow> int \<Rightarrow> canon_row list" where
  "year_group data y = filter (\<lambda>s. Year s = y) data"

definition rank_in_year :: "canon_row list \<Rightarrow> metric \<Rightarrow> canon_row \<Rightarrow> nat option" where
  "rank_in_year data m r = rank_min_desc (map (col m) (year_group data (Year r))) (col m r)"

text \<open>
  The column \<^verbatim>\<open>groupby("Year")[metric].rank(method="min", ascending=False).astype("Int64")\<close>,
  one rank for each row of \<^verbatim>\<open>data\<close>.
\<close>

definition rank_column :: "canon_row list \<Rightarrow> metric \<Rightarrow> nat option list" where
  "rank_column data m = map (rank_in_year data m) data"

text \<open>
  In \<^verbatim>\<open>country_level_plots\<close> the export \<^verbatim>\<open>world_rank_data\<close> has a rank column for each
  of the six metrics and keeps the columns \<^verbatim>\<open>Area\<close>, \<^verbatim>\<open>Year\<close> and the rank columns.
\<close>

definition world_rank_data :: "canon_row list \<Rightarrow> string list \<times> int list \<times> nat option list list" where
  "world_rank_data data = (map Area data, map Year data, map (rank_column data) metrics)"

text \<open>
  The loop \<^verbatim>\<open>for metric in metrics\<close> that builds the export rebinds the callback's
  parameter \<^verbatim>\<open>metric\<close>; the column \<^verbatim>\<open>world_rank\<close> of the second chart, computed after
  the loop, therefore ranks the last metric of the list whatever metric was picked.
\<close>

definition data_with_world_rank :: "canon_row list \<Rightarrow> metric \<Rightarrow> nat option list" where
  "data_with_world_rank data picked = rank_column data (last metrics)"

subsection \<open>Top 5 and market share\<close>

text \<open>IEEE addition and multiplication on the special values.\<close>

fun fadd :: "fval \<Rightarrow> fval \<Rightarrow> fval" where
  "fadd NaN _ = NaN"
| "fadd _ NaN = NaN"
| "fadd (Fin a) (Fin b) = Fin (a + b)"
| "fadd PInf NInf = NaN"
| "fadd NInf PInf = NaN"
| "fadd PInf _ = PInf"
| "fadd _ PInf = PInf"
| "fadd _ _ = NInf"

fun fneg :: "fval \<Rightarrow> fval" where
  "fneg (Fin a) = Fin (- a)"
| "fneg PInf = NInf"
| "fneg NInf = PInf"
| "fneg NaN = NaN"

fun fmul :: "fval \<Rightarrow> fval \<Rightarrow> fval" where
  "fmul NaN _ = NaN"
| "fmul _ NaN = NaN"
| "fmul (Fin a) (Fin b) = Fin (a * b)"
| "fmul (Fin a) v = (if a = 0 then NaN else if 0 < a then v else fneg v)"
| "fmul v (Fin b) = (if b = 0 then NaN else if 0 < b then v else fneg v)"
| "fmul PInf v = v"
| "fmul NInf v = fneg v"

text \<open>\<^verbatim>\<open>Series.sum()\<close> skips the missing values.\<close>

definition series_sum :: "fval list \<Rightarrow> fval" where
  "series_sum vs = foldl fadd (Fin 0) (filter (\<lambda>v. v \<noteq> NaN) vs)"

text \<open>
  \<^verbatim>\<open>data[data["Year"] == year]\<close>, and
  \<^verbatim>\<open>data[(data["Year"] == year) & (data["Continent"] == scope)]\<close> for a continent.
\<close>

definition scope_rows :: "canon_row list \<Rightarrow> int \<Rightarrow> string \<Rightarrow> canon_row list" where
  "scope_rows data year scope =
     (if scope = ''the Whole World'' then filter (\<lambda>r. Year r = year) data
      else filter (\<lambda>r. Year r = year \<and> Continent r = Some scope) data)"

text \<open>
  \<^verbatim>\<open>sort_values(metric, ascending=False)\<close>. pandas does not fix the order of rows with
  equal values; the model keeps them in the order of the table.
\<close>

definition sort_values_desc :: "metric \<Rightarrow> canon_row list \<Rightarrow> canon_row list" where
  "sort_values_desc m rows = sort_key (\<lambda>r. desc_key (col m r)) rows"

text \<open>\<^verbatim>\<open>.iloc[i]\<close> raises \<^verbatim>\<open>IndexError\<close> when the position is out of bounds.\<close>

definition iloc :: "'a list \<Rightarrow> nat \<Rightarrow> error + 'a" where
  "iloc xs i = (if i < length xs then Inr (xs ! i) else Inl IndexError)"

definition market_share :: "fval \<Rightarrow> fval \<Rightarrow> fval" where
  "market_share v market_total = fmul (fdiv v market_total) (Fin 100)"

text \<open>
  \<^verbatim>\<open>top5_plot_and_table\<close> returns the five country names and the five market shares
  (the titles and the bar chart are presentation). The script prints each share with two
  decimals (\<^verbatim>\<open>:.2f\<close>); the model returns the number that is printed.
\<close>

definition top5_plot_and_table :: "canon_row list \<Rightarrow> metric \<Rightarrow> int \<Rightarrow> string \<Rightarrow> error + (string list \<times> fval list)" where
  "top5_plot_and_table data m year scope =
     (let plot_df = take 5 (sort_values_desc m (scope_rows data year scope));
          market_total = series_sum (map (col m) (scope_rows data year scope))
      in case collect (map (iloc (map Area plot_df)) [0, 1, 2, 3, 4]) of
           Inl e \<Rightarrow> Inl e
         | Inr names \<Rightarrow>
            (case collect (map (iloc (map (col m) plot_df)) [0, 1, 2, 3, 4]) of
               Inl e \<Rightarrow> Inl e
             | Inr vals \<Rightarrow> Inr (names, map (\<lambda>v. market_share v market_total) vals)))"

subsection \<open>The ranking rule of the specification\<close>

text \<open>
  Competition ranking in the specification's words: one plus the number of rows of the
  same year with a strictly greater value of the metric.
\<close>

definition competition_rank :: "canon_row list \<Rightarrow> metric \<Rightarrow> canon_row \<Rightarrow> nat" where
  "competition_rank data m r =
     1 + length (filter (\<lambda>s. Year s = Year r \<and> fless (col m r) (col m s)) data)"

section \<open>Example tables\<close>

definition ex_cc :: "int \<Rightarrow> string" where
  "ex_cc c = (if c = 356 then ''Asia'' else if c = 250 then ''Europe''
              else if c = 412 then ''Europe'' else ''not found'')"

definition ex_ref :: "int ref_row list" where
  "ex_ref = [\<lparr>Numeric_code = 356, Alpha3 = ''IND''\<rparr>, \<lparr>Numeric_code = 250, Alpha3 = ''FRA''\<rparr>]"

definition ex_zero_consumption :: "int trade_row list" where
  "ex_zero_consumption =
     [\<lparr>Area = ''India'', Year = 2000, Import = Some 1, Export = Some 2,
       Production = Some 5, Consumption = Some 0, Area_Code = 356\<rparr>]"

definition mk_row :: "string \<Rightarrow> string \<Rightarrow> string \<Rightarrow> int \<Rightarrow> rat \<Rightarrow> rat \<Rightarrow> rat \<Rightarrow> rat \<Rightarrow> row" where
  "mk_row a c i y im ex pr co =
     \<lparr>Area = a, Year = y, Import = Some im, Export = Some ex, Production = Some pr,
      Consumption = Some co, Continent = Some c, ISO3 = Some i\<rparr>"

definition ex_table :: "canon_row list" where
  "ex_table = derive (aggregate
     [mk_row ''China'' ''Asia'' ''CHN'' 2020 4 1 40 20,
      mk_row ''India'' ''Asia'' ''IND'' 2020 4 2 50 25,
      mk_row ''Japan'' ''Asia'' ''JPN'' 2020 9 3 30 0,
      mk_row ''Nauru'' ''Oceania'' ''NRU'' 2020 1 0 0 0,
      mk_row ''India'' ''Asia'' ''IND'' 2021 7 2 60 30])"

definition ex_asia :: "canon_row list" where
  "ex_asia = derive (aggregate
     [mk_row ''Bhutan'' ''Asia'' ''BTN'' 2020 0 0 6 1,
      mk_row ''China'' ''Asia'' ''CHN'' 2020 0 0 40 1,
      mk_row ''France'' ''Europe'' ''FRA'' 2020 0 0 70 1,
      mk_row ''India'' ''Asia'' ''IND'' 2020 0 0 50 1,
      mk_row ''India'' ''Asia'' ''IND'' 2019 0 0 90 1,
      mk_row ''Indonesia'' ''Asia'' ''IDN'' 2020 0 0 30 1,
      mk_row ''Japan'' ''Asia'' ''JPN'' 2020 0 0 7 1,
      mk_row ''Nepal'' ''Asia'' ''NPL'' 2020 0 0 8 1,
      mk_row ''Sri Lanka'' ''Asia'' ''LKA'' 2020 0 0 10 1,
      mk_row ''Thailand'' ''Asia'' ''THA'' 2020 0 0 9 1,
      mk_row ''Viet Nam'' ''Asia'' ''VNM'' 2020 0 0 20 1])"

definition ex_testland :: "row list" where
  "ex_testland =
     [mk_row ''Testland'' ''Europe'' ''TST'' 2000 10 1 2 3,
      mk_row ''Otherland'' ''Europe'' ''OTH'' 2000 7 7 7 7,
      mk_row ''Testland'' ''Europe'' ''TST'' 2000 5 1 2 3]"

definition ex_trade :: "int trade_row list" where
  "ex_trade =
     [\<lparr>Area = ''India'', Year = 2000, Import = Some 10, Export = Some 2,
       Production = Some 5, Consumption = Some 4, Area_Code = 356\<rparr>,
      \<lparr>Area = ''Kosovo'', Year = 2000, Import = Some 3, Export = Some 1,
       Production = Some 2, Consumption = Some 2, Area_Code = 412\<rparr>,
      \<lparr>Area = ''Atlantis'', Year = 2000, Import = Some 8, Export = Some 8,
       Production = Some 8, Consumption = Some 8, Area_Code = 999\<rparr>,
      \<lparr>Area = ''India'', Year = 2000, Import = Some 5, Export = None,
       Production = Some 5, Consumption = Some 4, Area_Code = 356\<rparr>]"

definition ex_unmatched :: "int trade_row list" where
  "ex_unmatched =
     [\<lparr>Area = ''Kosovo'', Year = 2000, Import = Some 3, Export = Some 1,
       Production = Some 2, Consumption = Some 2, Area_Code = 412\<rparr>]"

definition ex_raw_ref :: "string ref_row list" where
  "ex_raw_ref = [\<lparr>Numeric_code = ''356'', Alpha3 = '' IND''\<rparr>,
                 \<lparr>Numeric_code = [CHR 0x22, CHR ''2'', CHR ''5'', CHR ''0'', CHR 0x22], Alpha3 = ''FRA''\<rparr>]"

definition ex_raw_good :: "string trade_row list" where
  "ex_raw_good =
     [\<lparr>Area = ''India'', Year = 2000, Import = Some 10, Export = Some 2,
       Production = Some 5, Consumption = Some 4, Area_Code = '' 356 ''\<rparr>,
      \<lparr>Area = ''France'', Year = 2000, Import = Some 3, Export = Some 1,
       Production = Some 2, Consumption = Some 2, Area_Code = ''250''\<rparr>]"

definition ex_raw_bad :: "string trade_row list" where
  "ex_raw_bad =
     [\<lparr>Area = ''India'', Year = 2000, Import = Some 10, Export = Some 2,
       Production = Some 5, Consumption = Some 4, Area_Code = ''356''\<rparr>,
      \<lparr>Area = ''Nowhere'', Year = 2000, Import = Some 3, Export = Some 1,
       Production = Some 2, Consumption = Some 2, Area_Code = ''12a''\<rparr>]"

section \<open>Facts about the pipeline\<close>

lemma in_aggregate: "r \<in> set (aggregate rows) \<Longrightarrow> \<exists>k. r = agg_group rows k"
  by (auto simp: aggregate_def)

lemma agg_group_production:
  "Production (agg_group rows k) = sum_skipna (map Production (group_of rows k))"
  by (cases k) (simp add: agg_group_def)

lemma agg_group_consumption:
  "Consumption (agg_group rows k) = sum_skipna (map Consumption (group_of rows k))"
  by (cases k) (simp add: agg_group_def)

lemma in_build_table:
  "r \<in> set (build_table cc data ref) \<Longrightarrow> \<exists>rows k. r = derive_row (agg_group rows k)"
  unfolding build_table_def derive_def using in_aggregate by fastforce

section \<open>Self-sufficiency ratio\<close>

text \<open>
  C1, as the code has it. Every row of the canonical table has a finite production \<open>p\<close>
  and consumption \<open>c\<close>. Its Self-Sufficiency Ratio is \<open>p / c\<close> when \<open>c\<close> is not zero.
  When \<open>c\<close> is zero the division raises nothing and does not give zero: it gives the
  missing value NaN when \<open>p\<close> is zero too, and plus or minus infinity, by the sign of
  \<open>p\<close>, otherwise.
\<close>

theorem self_sufficiency_ratio:
  "r \<in> set (build_table cc data ref) \<Longrightarrow>
   \<exists>p c. Production r = Some p \<and> Consumption r = Some c \<and>
     SSR r = (if c = 0 then (if p = 0 then NaN else if 0 < p then PInf else NInf)
              else Fin (p / c))"
proof -
  assume "r \<in> set (build_table cc data ref)"
  then obtain rows k where r: "r = derive_row (agg_group rows k)"
    using in_build_table by blast
  show ?thesis
    unfolding r
    by (simp add: derive_row_def agg_group_production agg_group_consumption
        sum_skipna_def div_fin_def)
qed

theorem self_sufficiency_ratio_witness:
  "hd (build_table ex_cc ex_zero_consumption ex_ref)
     \<in> set (build_table ex_cc ex_zero_consumption ex_ref) \<and>
   (\<exists>p c. Production (hd (build_table ex_cc ex_zero_consumption ex_ref)) = Some p \<and>
      Consumption (hd (build_table ex_cc ex_zero_consumption ex_ref)) = Some c \<and>
      SSR (hd (build_table ex_cc ex_zero_consumption ex_ref)) =
        (if c = 0 then (if p = 0 then NaN else if 0 < p then PInf else NInf)
         else Fin (p / c)))"
proof -
  have h: "hd (build_table ex_cc ex_zero_consumption ex_ref)
     \<in> set (build_table ex_cc ex_zero_consumption ex_ref)"
    by code_simp
  show ?thesis
    using h self_sufficiency_ratio [OF h] by blast
qed

text \<open>
  C1 as the specification states it fails: a row with production 5 and consumption 0
  has the ratio plus infinity, which is a number for pandas, not the missing value.
\<close>

theorem self_sufficiency_ratio_counterexample:
  "map Consumption (build_table ex_cc ex_zero_consumption ex_ref) = [Some 0] \<and>
   map SSR (build_table ex_cc ex_zero_consumption ex_ref) = [PInf] \<and>
   map SSR (build_table ex_cc ex_zero_consumption ex_ref) \<noteq> [NaN]"
  by code_simp

section \<open>World rank\<close>

lemma inj_desc_key: "desc_key a = desc_key b \<Longrightarrow> a = b"
  by (cases a; cases b) auto

lemma desc_key_less: "a \<noteq> NaN \<Longrightarrow> b \<noteq> NaN \<Longrightarrow> desc_key b < desc_key a \<longleftrightarrow> fless a b"
  by (cases a; cases b) auto

lemma takeWhile_sorted_key:
  "sorted (map f xs) \<Longrightarrow> v \<in> set xs \<Longrightarrow> (\<And>a b. f a = f b \<Longrightarrow> a = b) \<Longrightarrow>
   takeWhile (\<lambda>x. x \<noteq> v) xs = filter (\<lambda>x. f x < f v) xs"
proof (induction xs)
  case Nil
  then show ?case by simp
next
  case (Cons x xs)
  show ?case
  proof (cases "x = v")
    case True
    have "\<forall>y\<in>set xs. \<not> f y < f v" using Cons.prems(1) True by auto
    then have "filter (\<lambda>x. f x < f v) xs = []" by (simp add: filter_empty_conv)
    then show ?thesis using True by simp
  next
    case False
    then have vin: "v \<in> set xs" using Cons.prems(2) by simp
    then have "f x \<le> f v" using Cons.prems(1) by auto
    moreover have "f x \<noteq> f v" using False Cons.prems(3) by blast
    ultimately have "f x < f v" by simp
    moreover have "takeWhile (\<lambda>x. x \<noteq> v) xs = filter (\<lambda>x. f x < f v) xs"
      using Cons.IH Cons.prems vin by simp
    ultimately show ?thesis using False by simp
  qed
qed

lemma rank_min_desc_count:
  assumes "v \<noteq> NaN" "v \<in> set vs"
  shows "rank_min_desc vs v = Some (Suc (length (filter (\<lambda>x. fless v x) vs)))"
proof -
  let ?ys = "filter (\<lambda>x. x \<noteq> NaN) vs"
  have vin: "v \<in> set (sort_key desc_key ?ys)" using assms by simp
  have "takeWhile (\<lambda>x. x \<noteq> v) (sort_key desc_key ?ys)
        = filter (\<lambda>x. desc_key x < desc_key v) (sort_key desc_key ?ys)"
    by (rule takeWhile_sorted_key [OF sorted_sort_key vin inj_desc_key])
  also have "\<dots> = sort_key desc_key (filter (\<lambda>x. desc_key x < desc_key v) ?ys)"
    by (simp add: filter_sort)
  finally have "length (takeWhile (\<lambda>x. x \<noteq> v) (sort_key desc_key ?ys))
        = length (filter (\<lambda>x. desc_key x < desc_key v) ?ys)"
    by simp
  also have "filter (\<lambda>x. desc_key x < desc_key v) ?ys = filter (\<lambda>x. fless v x) vs"
    unfolding filter_filter
  proof (rule filter_cong [OF refl])
    fix x assume "x \<in> set vs"
    show "(x \<noteq> NaN \<and> desc_key x < desc_key v) = fless v x"
      using assms(1) by (cases v; cases x) auto
  qed
  finally show ?thesis using assms(1) by (simp add: rank_min_desc_def)
qed

lemma rank_in_year_count:
  assumes "r \<in> set data" "col m r \<noteq> NaN"
  shows "rank_in_year data m r =
     Some (Suc (length (filter (\<lambda>s. Year s = Year r \<and> fless (col m r) (col m s)) data)))"
proof -
  have "col m r \<in> set (map (col m) (year_group data (Year r)))"
    using assms(1) by (auto simp: year_group_def)
  then have "rank_in_year data m r =
      Some (Suc (length (filter (\<lambda>x. fless (col m r) x) (map (col m) (year_group data (Year r))))))"
    unfolding rank_in_year_def by (rule rank_min_desc_count [OF assms(2)])
  also have "length (filter (\<lambda>x. fless (col m r) x) (map (col m) (year_group data (Year r))))
     = length (filter (\<lambda>s. Year s = Year r \<and> fless (col m r) (col m s)) data)"
    by (simp add: year_group_def filter_map o_def conj_commute)
  finally show ?thesis .
qed

lemma rank_in_year_nan: "col m r = NaN \<Longrightarrow> rank_in_year data m r = None"
  by (simp add: rank_in_year_def rank_min_desc_def)

text \<open>
  C2, as the code has it. In the rank column of any of the six metrics, a row whose
  metric value is not missing has the competition rank: one plus the number of rows of
  the same year with a strictly greater value. Rows of the same year with equal values
  have the same rank, and the rank depends on the rows of the row's own year only.
\<close>

theorem world_rank_competition:
  assumes "i < length data" and "col m (data ! i) \<noteq> NaN"
  shows "rank_column data m ! i = Some (competition_rank data m (data ! i)) \<and>
    (\<forall>j < length data. Year (data ! j) = Year (data ! i) \<and> col m (data ! j) = col m (data ! i)
        \<longrightarrow> rank_column data m ! j = rank_column data m ! i) \<and>
    (\<forall>data'. i < length data' \<and> data' ! i = data ! i \<and>
        year_group data' (Year (data ! i)) = year_group data (Year (data ! i))
        \<longrightarrow> rank_column data' m ! i = rank_column data m ! i)"
proof (intro conjI allI impI)
  have ri: "data ! i \<in> set data" using assms(1) by simp
  show "rank_column data m ! i = Some (competition_rank data m (data ! i))"
    using assms(1) rank_in_year_count [OF ri assms(2)]
    by (simp add: rank_column_def competition_rank_def)
next
  fix j assume j: "j < length data"
    and e: "Year (data ! j) = Year (data ! i) \<and> col m (data ! j) = col m (data ! i)"
  then show "rank_column data m ! j = rank_column data m ! i"
    using assms(1) by (simp add: rank_column_def rank_in_year_def)
next
  fix data' assume "i < length data' \<and> data' ! i = data ! i \<and>
        year_group data' (Year (data ! i)) = year_group data (Year (data ! i))"
  then show "rank_column data' m ! i = rank_column data m ! i"
    using assms(1) by (simp add: rank_column_def rank_in_year_def)
qed

theorem world_rank_competition_witness:
  "1 < length ex_table \<and> col M_Import (ex_table ! 1) \<noteq> NaN \<and>
   rank_column ex_table M_Import ! 1 = Some (competition_rank ex_table M_Import (ex_table ! 1))"
proof -
  have h1: "1 < length ex_table" by code_simp
  have h2: "col M_Import (ex_table ! 1) \<noteq> NaN" by code_simp
  show ?thesis
    using h1 h2 world_rank_competition [OF h1 h2] by blast
qed

text \<open>
  C2 as the specification states it, for every row, fails: the row of Nauru has
  production 0 and consumption 0, so its Self-Sufficiency Ratio is NaN. No row has a
  greater ratio, so competition ranking gives 1, but pandas gives the row no rank.
\<close>

theorem world_rank_competition_counterexample:
  "rank_column ex_table M_SSR ! 4 = None \<and>
   competition_rank ex_table M_SSR (ex_table ! 4) = 1 \<and>
   rank_column ex_table M_SSR ! 4 \<noteq> Some (competition_rank ex_table M_SSR (ex_table ! 4))"
  by code_simp

text \<open>
  The rank column of the second chart is the rank by Self-Sufficiency Ratio, whatever
  metric was picked.
\<close>

lemma data_with_world_rank_ssr: "data_with_world_rank data picked = rank_column data M_SSR"
  by (simp add: data_with_world_rank_def metrics_def)

text \<open>
  C10. In the rank column of any of the six metrics, a row whose metric value is missing
  has the missing rank, and the rank of any other row is the rank it has in the table
  without the rows whose value is missing.
\<close>

theorem missing_value_rank:
  assumes "i < length data"
  shows "(col m (data ! i) = NaN \<longrightarrow> rank_column data m ! i = None) \<and>
    (col m (data ! i) \<noteq> NaN \<longrightarrow>
       rank_column data m ! i = rank_in_year (filter (\<lambda>s. col m s \<noteq> NaN) data) m (data ! i))"
proof (intro conjI impI)
  assume "col m (data ! i) = NaN"
  then show "rank_column data m ! i = None"
    using assms by (simp add: rank_column_def rank_in_year_nan)
next
  assume v: "col m (data ! i) \<noteq> NaN"
  let ?r = "data ! i"
  have ri: "?r \<in> set data" using assms by simp
  then have rf: "?r \<in> set (filter (\<lambda>s. col m s \<noteq> NaN) data)" using v by simp
  have c: "filter (\<lambda>s. Year s = Year ?r \<and> fless (col m ?r) (col m s)) (filter (\<lambda>s. col m s \<noteq> NaN) data)
      = filter (\<lambda>s. Year s = Year ?r \<and> fless (col m ?r) (col m s)) data"
    unfolding filter_filter
  proof (rule filter_cong [OF refl])
    fix s assume "s \<in> set data"
    show "(col m s \<noteq> NaN \<and> Year s = Year ?r \<and> fless (col m ?r) (col m s))
        = (Year s = Year ?r \<and> fless (col m ?r) (col m s))"
      by (cases "col m ?r"; cases "col m s") auto
  qed
  show "rank_column data m ! i = rank_in_year (filter (\<lambda>s. col m s \<noteq> NaN) data) m ?r"
    using assms rank_in_year_count [OF ri v] rank_in_year_count [OF rf v] c
    by (simp add: rank_column_def)
qed

theorem missing_value_rank_witness:
  "4 < length ex_table \<and> col M_SSR (ex_table ! 4) = NaN \<and>
   rank_column ex_table M_SSR ! 4 = None"
proof -
  have h: "4 < length ex_table" by code_simp
  have n: "col M_SSR (ex_table ! 4) = NaN" by code_simp
  show ?thesis
    using h n missing_value_rank [OF h, of M_SSR] by blast
qed

section \<open>Top 5 and market share\<close>


lemma collect_iloc_short:
  "length xs < 5 \<Longrightarrow> collect (map (iloc xs) [0, 1, 2, 3, 4]) = Inl IndexError"
  by (simp add: iloc_def)





text \<open>
  The scenario of the specification: nine Asian rows in 2020 with productions
  50, 40, 30, 20, 10, 9, 8, 7, 6, which sum to 180.
\<close>

lemma top5_asia_scenario:
  "series_sum (map (col M_Production) (scope_rows ex_asia 2020 ''Asia'')) = Fin 180 \<and>
   top5_plot_and_table ex_asia M_Production 2020 ''Asia'' =
     Inr ([''India'', ''China'', ''Indonesia'', ''Viet Nam'', ''Sri Lanka''],
          [Fin (250 / 9), Fin (200 / 9), Fin (50 / 3), Fin (100 / 9), Fin (50 / 9)])"
  by code_simp

text \<open>
  C4. When the scope has fewer than five rows the query fails: reading the missing
  position raises \<^verbatim>\<open>IndexError\<close>, and nothing is returned.
\<close>

theorem top5_insufficient:
  assumes "length (scope_rows data year scope) < 5"
  shows "top5_plot_and_table data m year scope = Inl IndexError"
proof -
  let ?p = "take 5 (sort_values_desc m (scope_rows data year scope))"
  have "length (map Area ?p) < 5"
    using assms by (simp add: sort_values_desc_def)
  then have "collect (map (iloc (map Area ?p)) [0, 1, 2, 3, 4]) = Inl IndexError"
    by (rule collect_iloc_short)
  then show ?thesis
    unfolding top5_plot_and_table_def Let_def by (simp only: sum.case)
qed

theorem top5_insufficient_witness:
  "length (scope_rows ex_table 2020 ''Asia'') < 5 \<and>
   top5_plot_and_table ex_table M_Production 2020 ''Asia'' = Inl IndexError"
proof -
  have h: "length (scope_rows ex_table 2020 ''Asia'') < 5" by code_simp
  show ?thesis
    using h top5_insufficient [OF h] by blast
qed

section \<open>Aggregation\<close>

lemma key_of_agg_group: "key_of (agg_group rows k) = Some k"
  by (cases k) (simp add: agg_group_def key_of_def)

lemma set_map_filter_conv: "set (List.map_filter f xs) = {y. \<exists>x \<in> set xs. f x = Some y}"
  by (induction xs) (auto split: option.splits)

lemma set_group_keys: "set (group_keys rows) = {k. \<exists>r \<in> set rows. key_of r = Some k}"
  by (simp add: group_keys_def set_map_filter_conv)

lemma distinct_group_keys: "distinct (group_keys rows)"
  by (simp add: group_keys_def)


lemma keys_aggregate: "map key_of (aggregate rows) = map Some (group_keys rows)"
  by (simp add: aggregate_def key_of_agg_group)

lemma agg_group_fields:
  "Import (agg_group rows k) = sum_skipna (map Import (group_of rows k))"
  "Export (agg_group rows k) = sum_skipna (map Export (group_of rows k))"
  "Production (agg_group rows k) = sum_skipna (map Production (group_of rows k))"
  "Consumption (agg_group rows k) = sum_skipna (map Consumption (group_of rows k))"
  by (cases k; simp add: agg_group_def)+








text \<open>
  C5. After aggregation no two rows have the same key (area, continent, ISO-3, year);
  every row of the result carries the key of some input row and, for each of Import,
  Export, Production and Consumption, the sum of that metric over all the input rows
  with that key; every input row with a complete key is represented.
\<close>

theorem aggregate_groups_and_sums:
  "distinct (map key_of (aggregate rows)) \<and>
   (\<forall>g \<in> set (aggregate rows). \<exists>k. key_of g = Some k \<and>
       (\<exists>r \<in> set rows. key_of r = Some k) \<and>
       Import g = sum_skipna (map Import (group_of rows k)) \<and>
       Export g = sum_skipna (map Export (group_of rows k)) \<and>
       Production g = sum_skipna (map Production (group_of rows k)) \<and>
       Consumption g = sum_skipna (map Consumption (group_of rows k))) \<and>
   (\<forall>r \<in> set rows. key_of r \<noteq> None \<longrightarrow> (\<exists>g \<in> set (aggregate rows). key_of g = key_of r))"
proof (intro conjI ballI impI)
  show "distinct (map key_of (aggregate rows))"
    unfolding keys_aggregate by (simp add: distinct_map distinct_group_keys)
next
  fix g assume "g \<in> set (aggregate rows)"
  then obtain k where k: "k \<in> set (group_keys rows)" and g: "g = agg_group rows k"
    by (auto simp: aggregate_def)
  from k have "\<exists>r \<in> set rows. key_of r = Some k" by (simp add: set_group_keys)
  then show "\<exists>k. key_of g = Some k \<and>
       (\<exists>r \<in> set rows. key_of r = Some k) \<and>
       Import g = sum_skipna (map Import (group_of rows k)) \<and>
       Export g = sum_skipna (map Export (group_of rows k)) \<and>
       Production g = sum_skipna (map Production (group_of rows k)) \<and>
       Consumption g = sum_skipna (map Consumption (group_of rows k))"
    unfolding g using key_of_agg_group agg_group_fields by blast
next
  fix r assume r: "r \<in> set rows" and "key_of r \<noteq> None"
  then obtain k where k: "key_of r = Some k" by auto
  then have "k \<in> set (group_keys rows)" using r by (auto simp: set_group_keys)
  then have "agg_group rows k \<in> set (aggregate rows)" by (simp add: aggregate_def)
  then show "\<exists>g \<in> set (aggregate rows). key_of g = key_of r"
    using k key_of_agg_group by metis
qed

text \<open>
  The scenario of the specification is the witness: two rows for Testland in 2000 with
  Import 10 and Import 5 become one row with Import 15.
\<close>

theorem aggregate_groups_and_sums_witness:
  "distinct (map key_of (aggregate ex_testland)) \<and>
   aggregate ex_testland =
     [mk_row ''Otherland'' ''Europe'' ''OTH'' 2000 7 7 7 7,
      mk_row ''Testland'' ''Europe'' ''TST'' 2000 15 2 4 6]"
proof -
  have d: "distinct (map key_of (aggregate ex_testland))"
    using aggregate_groups_and_sums [of ex_testland] by blast
  have e: "aggregate ex_testland =
     [mk_row ''Otherland'' ''Europe'' ''OTH'' 2000 7 7 7 7,
      mk_row ''Testland'' ''Europe'' ''TST'' 2000 15 2 4 6]"
    by code_simp
  show ?thesis using d e by blast
qed



section \<open>Join, classification and the rows that are dropped\<close>

lemma Area_Code_shorten_uk_row [simp]: "Area_Code (shorten_uk_row d) = Area_Code d"
  by (simp add: shorten_uk_row_def)

lemma fst_merge_row: "j \<in> set (merge_row ref d) \<Longrightarrow> fst j = d"
  by (auto simp: merge_row_def split: list.splits)

lemma merge_row_nonempty: "merge_row ref d \<noteq> []"
  by (simp add: merge_row_def split: list.splits)



lemma snd_merge_row_matched:
  "\<exists>f \<in> set ref. Numeric_code f = Area_Code d \<Longrightarrow> j \<in> set (merge_row ref d) \<Longrightarrow> snd j \<noteq> None"
  by (auto simp: merge_row_def filter_empty_conv split: list.splits)

lemma merge_row_unmatched:
  "\<not> (\<exists>f \<in> set ref. Numeric_code f = Area_Code d) \<Longrightarrow> merge_row ref d = [(d, None)]"
  by (auto simp: merge_row_def filter_empty_conv split: list.splits)

lemma filter_snd_merge_row:
  "filter (\<lambda>j. snd j \<noteq> None) (merge_row ref d) =
     (if \<exists>f \<in> set ref. Numeric_code f = Area_Code d then merge_row ref d else [])"
proof (cases "\<exists>f \<in> set ref. Numeric_code f = Area_Code d")
  case True
  then have "\<forall>j \<in> set (merge_row ref d). snd j \<noteq> None"
    using snd_merge_row_matched by blast
  then show ?thesis using True by (simp add: filter_True del: bex_simps)
next
  case False
  then show ?thesis by (simp add: merge_row_unmatched del: bex_simps)
qed

lemma filter_snd_merge_left:
  "filter (\<lambda>j. snd j \<noteq> None) (merge_left data ref) =
     merge_left (filter (\<lambda>d. \<exists>f \<in> set ref. Numeric_code f = Area_Code d) data) ref"
  unfolding merge_left_def
  by (induction data) (simp_all add: filter_snd_merge_row del: bex_simps not_None_eq)


lemma ISO3_with_continent: "ISO3 (with_continent cc j) = snd j"
  by (cases j) (simp add: with_continent_def)


lemma classify_filter_snd:
  "classify cc (filter (\<lambda>j. snd j \<noteq> None) joined) = filter (\<lambda>r. ISO3 r \<noteq> None) (classify cc joined)"
  by (induction joined) (simp_all add: classify_def ISO3_with_continent del: not_None_eq)

lemma aggregate_filter:
  assumes "\<And>r. r \<in> set rows \<Longrightarrow> key_of r \<noteq> None \<Longrightarrow> P r"
  shows "aggregate (filter P rows) = aggregate rows"
proof -
  have mf: "List.map_filter key_of (filter P rows) = List.map_filter key_of rows"
    using assms by (induction rows) (auto split: option.splits)
  have go: "group_of (filter P rows) k = group_of rows k" for k
    unfolding group_of_def filter_filter
    by (rule filter_cong [OF refl]) (metis assms option.distinct(1))
  have "agg_group (filter P rows) k = agg_group rows k" for k
    by (simp add: agg_group_def go)
  then show ?thesis by (simp add: aggregate_def group_keys_def mf)
qed

lemma key_of_ISO3: "key_of r \<noteq> None \<Longrightarrow> ISO3 r \<noteq> None"
  by (auto simp: key_of_def split: option.splits)

lemma prep_filter:
  "shorten_uk (fix_sudan (filter (\<lambda>d. P (Area_Code (fix_sudan_row d))) data)) =
   filter (\<lambda>d. P (Area_Code d)) (shorten_uk (fix_sudan data))"
  by (simp add: shorten_uk_def fix_sudan_def filter_map o_def)


lemma build_table_matched:
  "build_table cc (filter (\<lambda>d. \<exists>f \<in> set ref. Numeric_code f = Area_Code (fix_sudan_row d)) data) ref =
   build_table cc data ref"
proof -
  let ?pre = "shorten_uk (fix_sudan data)"
  let ?rows = "classify cc (merge_left ?pre ref)"
  have "classify cc (merge_left (filter (\<lambda>d. \<exists>f \<in> set ref. Numeric_code f = Area_Code d) ?pre) ref)
      = filter (\<lambda>r. ISO3 r \<noteq> None) ?rows"
    unfolding filter_snd_merge_left [symmetric] by (rule classify_filter_snd)
  moreover have "aggregate (filter (\<lambda>r. ISO3 r \<noteq> None) ?rows) = aggregate ?rows"
    by (rule aggregate_filter) (rule key_of_ISO3)
  ultimately show ?thesis
    unfolding build_table_def prep_filter [of "\<lambda>c. \<exists>f \<in> set ref. Numeric_code f = c"] by simp
qed






lemma build_table_ISO3: "r \<in> set (build_table cc data ref) \<Longrightarrow> ISO3 r \<noteq> None"
  by (auto simp: build_table_def derive_def aggregate_def derive_row_def agg_group_def
      split: prod.splits)



text \<open>
  C7, as the code has it. The left join keeps every trade record, and a record whose code
  matches no reference row gets a missing ISO-3 code. The classifier works from the
  numeric code and does not remove such a record; the aggregation does, because
  \<^verbatim>\<open>groupby\<close> drops the rows with a missing key. So the canonical table is the one
  built without the unmatched records, and none of its rows has a missing ISO-3 code.
\<close>

theorem left_join_unmatched_dropped:
  "(\<forall>d \<in> set data. \<exists>a. (d, a) \<in> set (merge_left data ref)) \<and>
   (\<forall>d \<in> set data. \<not> (\<exists>f \<in> set ref. Numeric_code f = Area_Code d) \<longrightarrow>
       (\<forall>a. (d, a) \<in> set (merge_left data ref) \<longrightarrow> a = None)) \<and>
   aggregate (filter (\<lambda>r. ISO3 r \<noteq> None) (classify cc (merge_left data ref))) =
     aggregate (classify cc (merge_left data ref)) \<and>
   build_table cc (filter (\<lambda>d. \<exists>f \<in> set ref. Numeric_code f = Area_Code (fix_sudan_row d)) data) ref =
     build_table cc data ref \<and>
   (\<forall>r \<in> set (build_table cc data ref). ISO3 r \<noteq> None)"
proof (intro conjI ballI impI allI)
  fix d assume d: "d \<in> set data"
  obtain j where j: "j \<in> set (merge_row ref d)"
    using merge_row_nonempty [of ref d] by (cases "merge_row ref d") auto
  then have "(d, snd j) \<in> set (merge_left data ref)"
    using d fst_merge_row [OF j] by (force simp: merge_left_def)
  then show "\<exists>a. (d, a) \<in> set (merge_left data ref)" ..
next
  fix d a assume d: "d \<in> set data"
    and u: "\<not> (\<exists>f \<in> set ref. Numeric_code f = Area_Code d)"
    and m: "(d, a) \<in> set (merge_left data ref)"
  from m obtain d' where "d' \<in> set data" and in': "(d, a) \<in> set (merge_row ref d')"
    by (auto simp: merge_left_def)
  then have "d' = d" using fst_merge_row by fastforce
  then show "a = None" using in' merge_row_unmatched [OF u] by simp
next
  show "aggregate (filter (\<lambda>r. ISO3 r \<noteq> None) (classify cc (merge_left data ref))) =
     aggregate (classify cc (merge_left data ref))"
    by (rule aggregate_filter) (rule key_of_ISO3)
next
  show "build_table cc (filter (\<lambda>d. \<exists>f \<in> set ref. Numeric_code f = Area_Code (fix_sudan_row d)) data) ref =
     build_table cc data ref"
    by (rule build_table_matched)
next
  fix r assume "r \<in> set (build_table cc data ref)"
  then show "ISO3 r \<noteq> None" by (rule build_table_ISO3)
qed

theorem left_join_unmatched_dropped_witness:
  "ex_trade ! 1 \<in> set ex_trade \<and>
   map Area_Code ex_trade = [356, 412, 999, 356] \<and>
   map Numeric_code ex_ref = [356, 250] \<and>
   map snd (merge_left ex_trade ex_ref) = [Some ''IND'', None, None, Some ''IND''] \<and>
   aggregate (filter (\<lambda>r. ISO3 r \<noteq> None) (classify ex_cc (merge_left ex_trade ex_ref))) =
     aggregate (classify ex_cc (merge_left ex_trade ex_ref)) \<and>
   map Area (build_table ex_cc ex_trade ex_ref) = [''India'']"
proof -
  have d: "ex_trade ! 1 \<in> set ex_trade" by code_simp
  have c: "map Area_Code ex_trade = [356, 412, 999, 356]" by code_simp
  have n: "map Numeric_code ex_ref = [356, 250]" by code_simp
  have m: "map snd (merge_left ex_trade ex_ref) = [Some ''IND'', None, None, Some ''IND'']"
    by code_simp
  have e: "map Area (build_table ex_cc ex_trade ex_ref) = [''India'']" by code_simp
  show ?thesis
    using d c n m e left_join_unmatched_dropped [of ex_trade ex_ref ex_cc] by blast
qed

text \<open>
  C7 as the specification states it fails: the record of Kosovo matches no reference row,
  the classifier answers Europe for its code, and the record is still there after the
  classifier's filter. The aggregation is what drops it.
\<close>

theorem left_join_unmatched_dropped_counterexample:
  "map ISO3 (classify ex_cc (merge_left (shorten_uk (fix_sudan ex_unmatched)) ex_ref)) = [None] \<and>
   map Continent (classify ex_cc (merge_left (shorten_uk (fix_sudan ex_unmatched)) ex_ref))
     = [Some ''Europe''] \<and>
   classify ex_cc (merge_left (shorten_uk (fix_sudan ex_unmatched)) ex_ref) \<noteq> [] \<and>
   build_table ex_cc ex_unmatched ex_ref = []"
  by code_simp

section \<open>Cleaning the numeric codes\<close>

lemma collect_Inl_iff: "(\<exists>e. collect xs = Inl e) \<longleftrightarrow> (\<exists>x \<in> set xs. \<exists>e. x = Inl e)"
  by (induction xs) (auto split: sum.splits)

lemma collect_Inr: "collect xs = Inr vs \<Longrightarrow> xs = map Inr vs"
  by (induction xs arbitrary: vs) (auto split: sum.splits)

lemma clean_trade_row_Inl: "(\<exists>e. clean_trade_row d = Inl e) \<longleftrightarrow> (\<exists>e. clean_code (Area_Code d) = Inl e)"
  by (auto simp: clean_trade_row_def split: sum.splits)

lemma clean_ref_row_Inl: "(\<exists>e. clean_ref_row f = Inl e) \<longleftrightarrow> (\<exists>e. clean_code (Numeric_code f) = Inl e)"
  by (auto simp: clean_ref_row_def split: sum.splits)

lemma clean_data_Inl:
  "(\<exists>e. clean_data raw = Inl e) \<longleftrightarrow> (\<exists>d \<in> set raw. \<exists>e. clean_code (Area_Code d) = Inl e)"
  unfolding clean_data_def collect_Inl_iff by (simp add: clean_trade_row_Inl)

lemma clean_ref_Inl:
  "(\<exists>e. clean_ref raw = Inl e) \<longleftrightarrow> (\<exists>f \<in> set raw. \<exists>e. clean_code (Numeric_code f) = Inl e)"
  unfolding clean_ref_def collect_Inl_iff by (simp add: clean_ref_row_Inl)

lemma clean_data_length: "clean_data raw = Inr data \<Longrightarrow> length data = length raw"
  unfolding clean_data_def by (drule collect_Inr) (metis length_map)

lemma pipeline_Inl:
  "(\<exists>e. pipeline cc raw raw_ref = Inl e) \<longleftrightarrow>
   (\<exists>e. clean_data raw = Inl e) \<or> (\<exists>e. clean_ref raw_ref = Inl e)"
  by (auto simp: pipeline_def split: sum.splits)

lemma uncoercible_ValueError:
  "py_int (str_strip (str_replace_quote s)) = None \<Longrightarrow> clean_code s = Inl ValueError"
  by (simp add: clean_code_def astype_Int64_def)

text \<open>
  C8, as the code has it. A code that is no integer literal after the quotes and the
  surrounding whitespace are removed makes \<^verbatim>\<open>astype("Int64")\<close> raise \<^verbatim>\<open>ValueError\<close>.
  The build of the table fails exactly when some code of the trade table or of the
  reference table cannot be converted; when the trade table is cleaned, no row of it is
  left out.
\<close>

theorem uncoercible_code_raises:
  "(py_int (str_strip (str_replace_quote s)) = None \<longrightarrow> clean_code s = Inl ValueError) \<and>
   ((\<exists>e. pipeline cc raw raw_ref = Inl e) \<longleftrightarrow>
      (\<exists>d \<in> set raw. \<exists>e. clean_code (Area_Code d) = Inl e) \<or>
      (\<exists>f \<in> set raw_ref. \<exists>e. clean_code (Numeric_code f) = Inl e)) \<and>
   (\<forall>data. clean_data raw = Inr data \<longrightarrow> length data = length raw)"
proof (intro conjI impI allI)
  assume "py_int (str_strip (str_replace_quote s)) = None"
  then show "clean_code s = Inl ValueError" by (rule uncoercible_ValueError)
next
  show "(\<exists>e. pipeline cc raw raw_ref = Inl e) \<longleftrightarrow>
      (\<exists>d \<in> set raw. \<exists>e. clean_code (Area_Code d) = Inl e) \<or>
      (\<exists>f \<in> set raw_ref. \<exists>e. clean_code (Numeric_code f) = Inl e)"
    unfolding pipeline_Inl clean_data_Inl clean_ref_Inl ..
next
  fix data assume "clean_data raw = Inr data"
  then show "length data = length raw" by (rule clean_data_length)
qed

theorem uncoercible_code_raises_witness:
  "py_int (str_strip (str_replace_quote ''12a'')) = None \<and>
   clean_code ''12a'' = Inl ValueError \<and>
   ex_raw_bad ! 1 \<in> set ex_raw_bad \<and>
   clean_code (Area_Code (ex_raw_bad ! 1)) = Inl ValueError \<and>
   (\<exists>e. pipeline ex_cc ex_raw_bad ex_raw_ref = Inl e)"
proof -
  have p: "py_int (str_strip (str_replace_quote ''12a'')) = None" by code_simp
  have d: "ex_raw_bad ! 1 \<in> set ex_raw_bad" by code_simp
  have c: "clean_code (Area_Code (ex_raw_bad ! 1)) = Inl ValueError" by code_simp
  show ?thesis
    using p d c uncoercible_code_raises [of "''12a''" ex_cc ex_raw_bad ex_raw_ref] by blast
qed

text \<open>
  C8 as the specification states it fails: a trade table whose second row has the code
  \<^verbatim>\<open>12a\<close> does not give the table of the other row; the build raises
  \<^verbatim>\<open>ValueError\<close>.
\<close>

theorem uncoercible_code_raises_counterexample:
  "map Area_Code ex_raw_bad = [''356'', ''12a''] \<and>
   pipeline ex_cc ex_raw_bad ex_raw_ref = Inl ValueError"
  by code_simp

text \<open>Codes with stray quotes and whitespace are cleaned and joined.\<close>

lemma pipeline_cleans_codes:
  "map clean_code (map Area_Code ex_raw_good) = [Inr 356, Inr 250] \<and>
   map clean_code (map Numeric_code ex_raw_ref) = [Inr 356, Inr 250] \<and>
   (case pipeline ex_cc ex_raw_good ex_raw_ref of Inl e \<Rightarrow> []
    | Inr tbl \<Rightarrow> map ISO3 tbl) = [Some ''FRA'', Some ''IND'']"
  by code_simp

end
